theory Spec2Isabelle
  imports Complex_Main "HOL-Library.Option_ord" "HOL-Library.Word"
begin

section \<open>Data model\<close>

text \<open>
  Python numbers that carry quantities, limits, thresholds and money are floats: a number is
  modelled by the exact rational value it has (\<open>rat\<close>), and every arithmetic operation on
  floats is the exact operation followed by rounding to the nearest double (section
  \<open>Floating point\<close>). Timestamps are whole seconds on a linear time axis (\<open>int\<close>), a calendar
  day is the day number \<open>t div 86400\<close>. Resource kinds are the Python strings the code passes
  around. Database tables are lists of records; a record's \<open>name\<close> is its primary key.
\<close>

type_synonym resource = string

datatype LimitStatus = Ok | Warning | Exceeded

record settings =
  license_key :: string
  api_key :: string
  api_secret :: "string option"
  warning_threshold :: rat
  hard_limit_threshold :: rat
  sync_interval_hours :: int
  cache_ttl_seconds :: int
  block_on_exceeded :: bool
  send_alert_emails :: bool
  alert_email :: string
  last_usage_sync :: "int option"

record license =
  tier :: string
  status :: string
  is_valid :: bool
  resource_limits :: "(resource \<times> rat) list"

record usage_record =
  name :: string
  resource_type :: resource
  quantity :: rat
  timestamp :: int
  creation :: int
  aggregated :: bool
  aggregated_at :: "int option"
  period_start :: "int option"
  period_end :: "int option"
  synced :: bool
  synced_at :: "int option"

section \<open>Python values\<close>

text \<open>JSON values, as the central API returns them, and Python's truth value of one.\<close>

datatype json =
  JNull | JBool bool | JNum rat | JStr string | JArr "json list" | JObj "(string \<times> json) list"



text \<open>\<open>str\<close> of a natural number and of an integer.\<close>

definition digit_char :: "nat \<Rightarrow> char" where
  "digit_char d = ''0123456789'' ! d"

function show_nat :: "nat \<Rightarrow> string" where
  "show_nat n = (if n < 10 then [digit_char n] else show_nat (n div 10) @ [digit_char (n mod 10)])"
  by pat_completeness auto
termination
  by (relation "measure (\<lambda>n. n)") auto

declare show_nat.simps [simp del]

definition show_int :: "int \<Rightarrow> string" where
  "show_int i = (if i < 0 then CHR ''-'' # show_nat (nat (- i)) else show_nat (nat i))"

section \<open>Floating point\<close>

text \<open>
  A Python float is an IEEE 754 double. \<open>py_float x\<close> is the double nearest to the rational
  \<open>x\<close>, a tie going to the even significand: 53 significant bits, with the spacing of the
  subnormal numbers (\<open>2 ^ - 1074\<close>) below the normal range. The operators \<open>/\<close>, \<open>*\<close> and \<open>-\<close>
  on floats compute the exact result and round it. Results stay finite (below \<open>2 ^ 1024\<close>)
  for the quantities the application meters.
\<close>

function floor_log2 :: "nat \<Rightarrow> nat" where
  "floor_log2 n = (if n < 2 then 0 else Suc (floor_log2 (n div 2)))"
  by pat_completeness auto
termination
  by (relation "measure (\<lambda>n. n)") auto

declare floor_log2.simps [simp del]

definition pow2 :: "int \<Rightarrow> rat" where
  "pow2 e = (if e \<ge> 0 then 2 ^ nat e else 1 / 2 ^ nat (- e))"

text \<open>The integer nearest to \<open>y\<close>, a tie going to the even one.\<close>

definition round_half_even :: "rat \<Rightarrow> int" where
  "round_half_even y =
     (let f = \<lfloor>y\<rfloor>; d = y - of_int f
      in if d < 1/2 then f else if d > 1/2 then f + 1 else if even f then f else f + 1)"

text \<open>For \<open>a > 0\<close>, the exponent \<open>e\<close> with \<open>2 ^ e \<le> a < 2 ^ (e + 1)\<close>.\<close>

definition binary_exponent :: "rat \<Rightarrow> int" where
  "binary_exponent a =
     (let d = (if a \<ge> 1 then int (floor_log2 (nat \<lfloor>a\<rfloor>))
               else - int (floor_log2 (nat \<lfloor>1 / a\<rfloor>)))
      in if pow2 d \<le> a then d else d - 1)"

definition py_float :: "rat \<Rightarrow> rat" where
  "py_float x =
     (if x = 0 then 0
      else
        let a = \<bar>x\<bar>;
            ulp = pow2 (max (binary_exponent a - 52) (- 1074))
        in sgn x * of_int (round_half_even (a / ulp)) * ulp)"

definition float_div :: "rat \<Rightarrow> rat \<Rightarrow> rat" where
  "float_div a b = py_float (a / b)"

definition float_mul :: "rat \<Rightarrow> rat \<Rightarrow> rat" where
  "float_mul a b = py_float (a * b)"

definition float_sub :: "rat \<Rightarrow> rat \<Rightarrow> rat" where
  "float_sub a b = py_float (a - b)"

text \<open>
  \<open>round(x, 2)\<close> of a float: the exact value of \<open>x\<close> rounded to two decimals, a tie going to
  the even digit, and of that decimal the nearest double.
\<close>

definition py_round2 :: "rat \<Rightarrow> rat" where
  "py_round2 x = py_float (of_int (round_half_even (x * 100)) / 100)"

section \<open>utils/licensing.py\<close>

text \<open>
  \<open>get_license\<close>: the cached licence when the cache holds one, else the licence built from
  the active App License document, else \<open>None\<close>. The two lookups are inputs of the model.
\<close>

definition get_license :: "license option \<Rightarrow> license option \<Rightarrow> license option" where
  "get_license cached active = (case cached of Some l \<Rightarrow> Some l | None \<Rightarrow> active)"

text \<open>\<open>get_resource_limit\<close>: 0 without a licence, else \<open>limits.get(resource, 0)\<close>.\<close>

definition get_resource_limit :: "license option \<Rightarrow> resource \<Rightarrow> rat" where
  "get_resource_limit license_doc resource =
     (case license_doc of
        None \<Rightarrow> 0
      | Some l \<Rightarrow> (case map_of (resource_limits l) resource of None \<Rightarrow> 0 | Some v \<Rightarrow> v))"

section \<open>utils/metering.py: limits and overage\<close>

text \<open>
  \<open>get_current_usage\<close>: \<open>COALESCE(SUM(quantity), 0)\<close> over the records of the resource whose
  timestamp's date is on or after the first day of the current month (\<open>month_start\<close>, a day
  number read from the clock). The database adds the stored decimals exactly; Python
  receives the sum as a float.
\<close>

definition date_of :: "int \<Rightarrow> int" where
  "date_of t = t div 86400"

definition get_current_usage :: "usage_record list \<Rightarrow> int \<Rightarrow> resource \<Rightarrow> rat" where
  "get_current_usage records month_start resource =
     py_float (sum_list (map quantity
       (filter (\<lambda>r. resource_type r = resource \<and> date_of (timestamp r) \<ge> month_start) records)))"

definition check_limits ::
  "settings \<Rightarrow> license option \<Rightarrow> usage_record list \<Rightarrow> int \<Rightarrow> resource \<Rightarrow> LimitStatus" where
  "check_limits st license_doc records month_start resource =
     (let limit = get_resource_limit license_doc resource in
      if limit = 0 then Ok
      else
        let current = get_current_usage records month_start resource;
            percentage = float_mul (float_div current limit) 100
        in if percentage \<ge> hard_limit_threshold st then Exceeded
           else if percentage \<ge> warning_threshold st then Warning
           else Ok)"

definition get_usage_percentage ::
  "license option \<Rightarrow> usage_record list \<Rightarrow> int \<Rightarrow> resource \<Rightarrow> rat" where
  "get_usage_percentage license_doc records month_start resource =
     (let limit = get_resource_limit license_doc resource in
      if limit = 0 then 0
      else
        let current = get_current_usage records month_start resource
        in float_mul (float_div current limit) 100)"

text \<open>
  The rate table \<open>OVERAGE_RATES\<close> of doctype/usage_alert/usage_alert.py. The literals \<open>0.08\<close>
  and \<open>0.015\<close> are the doubles nearest to them; the other rates are doubles as written.
\<close>

record rate_info =
  info_rate :: rat
  info_per :: "rat option"
  info_unit :: string

definition OVERAGE_RATES :: "(resource \<times> rate_info) list" where
  "OVERAGE_RATES =
     [(''storage_gb'', \<lparr>info_rate = 3/2, info_per = None, info_unit = ''GB/mo''\<rparr>),
      (''bandwidth_gb'', \<lparr>info_rate = py_float (8/100), info_per = None, info_unit = ''GB''\<rparr>),
      (''database_gb'', \<lparr>info_rate = 3, info_per = None, info_unit = ''GB/mo''\<rparr>),
      (''api_calls'', \<lparr>info_rate = 1/2, info_per = Some 10000, info_unit = ''10K calls''\<rparr>),
      (''file_uploads_gb'', \<lparr>info_rate = 3/2, info_per = None, info_unit = ''GB/mo''\<rparr>),
      (''executions'', \<lparr>info_rate = 2, info_per = Some 10000, info_unit = ''10K executions''\<rparr>),
      (''emails'', \<lparr>info_rate = 1, info_per = Some 1000, info_unit = ''1K emails''\<rparr>),
      (''ai_queries'', \<lparr>info_rate = py_float (15/1000), info_per = None, info_unit = ''query''\<rparr>),
      (''webhooks'', \<lparr>info_rate = 0, info_per = None, info_unit = ''N/A''\<rparr>)]"

text \<open>\<open>OVERAGE_RATES.get(resource, {"rate": 0})\<close>, then \<open>.get("rate", 0)\<close> and \<open>.get("per", 1)\<close>.\<close>

definition rate_of :: "resource \<Rightarrow> rat" where
  "rate_of resource = (case map_of OVERAGE_RATES resource of None \<Rightarrow> 0 | Some i \<Rightarrow> info_rate i)"

definition per_of :: "resource \<Rightarrow> rat" where
  "per_of resource =
     (case map_of OVERAGE_RATES resource of
        None \<Rightarrow> 1
      | Some i \<Rightarrow> (case info_per i of None \<Rightarrow> 1 | Some p \<Rightarrow> p))"

record overage =
  exceeded_by :: rat
  overage_cost :: rat
  rate :: rat

definition calculate_overage ::
  "license option \<Rightarrow> usage_record list \<Rightarrow> int \<Rightarrow> resource \<Rightarrow> overage" where
  "calculate_overage license_doc records month_start resource =
     (let limit = get_resource_limit license_doc resource in
      if limit = 0 then \<lparr>exceeded_by = 0, overage_cost = 0, rate = 0\<rparr>
      else
        let current = get_current_usage records month_start resource;
            exceeded = max 0 (float_sub current limit)
        in if exceeded = 0 then \<lparr>exceeded_by = 0, overage_cost = 0, rate = 0\<rparr>
           else
             let r = rate_of resource; per = per_of resource;
                 cost = (if per > 1 then float_mul (float_div exceeded per) r
                         else float_mul exceeded r)
             in \<lparr>exceeded_by = exceeded, overage_cost = py_round2 cost, rate = r\<rparr>)"

section \<open>doctype/simbotix_core_settings: validation\<close>

text \<open>
  \<open>frappe.throw\<close> raises a validation error carrying its message. A numeric settings field
  that was never set counts as 0, which Python treats as false like \<open>None\<close>: the guards
  \<open>if self.x:\<close> of \<open>validate\<close> are the tests \<open>x \<noteq> 0\<close>.
\<close>

datatype error = ValidationError string

definition SimbotixCoreSettings_validate :: "settings \<Rightarrow> error + unit" where
  "SimbotixCoreSettings_validate doc =
     (if (warning_threshold doc \<noteq> 0 \<and> hard_limit_threshold doc \<noteq> 0) \<and>
         warning_threshold doc \<ge> hard_limit_threshold doc
      then Inl (ValidationError ''Warning threshold must be less than hard limit threshold'')
      else if sync_interval_hours doc \<noteq> 0 \<and>
              (sync_interval_hours doc < 1 \<or> sync_interval_hours doc > 24)
      then Inl (ValidationError ''Sync interval must be between 1 and 24 hours'')
      else if cache_ttl_seconds doc \<noteq> 0 \<and> cache_ttl_seconds doc < 60
      then Inl (ValidationError ''Cache TTL must be at least 60 seconds'')
      else Inr ())"

text \<open>
  Saving a document runs its \<open>validate\<close> hook before the write: an error leaves the stored
  settings as they were, otherwise the document replaces them.
\<close>

definition save_settings :: "settings \<Rightarrow> settings option \<Rightarrow> (error + unit) \<times> settings option" where
  "save_settings doc stored =
     (case SimbotixCoreSettings_validate doc of
        Inl e \<Rightarrow> (Inl e, stored)
      | Inr u \<Rightarrow> (Inr u, Some doc))"

section \<open>utils/central_api.py\<close>

record client =
  base_url :: string
  client_api_key :: string
  client_api_secret :: "string option"
  timeout :: nat

text \<open>\<open>CentralAPIClient.__init__\<close>: \<open>base_url or settings.central_api_url\<close>.\<close>

definition CentralAPIClient :: "settings \<Rightarrow> string \<Rightarrow> string option \<Rightarrow> client" where
  "CentralAPIClient st central_api_url url =
     \<lparr>base_url = (case url of None \<Rightarrow> central_api_url
                   | Some u \<Rightarrow> if u = [] then central_api_url else u),
      client_api_key = api_key st, client_api_secret = api_secret st, timeout = 30\<rparr>"

subsection \<open>_generate_signature\<close>

text \<open>
  \<open>hmac.new(secret, message, hashlib.sha256)\<close> is the standard library's: the model takes
  the function from key and message to the digest's bytes as a parameter. Strings are byte
  strings, so \<open>encode("utf-8")\<close> is the identity. \<open>hexdigest\<close> prints each byte as two
  lowercase hexadecimal digits.
\<close>

type_synonym hmac_fn = "string \<Rightarrow> string \<Rightarrow> 8 word list"

definition hex_digit :: "nat \<Rightarrow> char" where
  "hex_digit d = ''0123456789abcdef'' ! d"

definition hex_byte :: "8 word \<Rightarrow> string" where
  "hex_byte b = [hex_digit (unat b div 16), hex_digit (unat b mod 16)]"

definition hexdigest :: "8 word list \<Rightarrow> string" where
  "hexdigest bs = concat (map hex_byte bs)"

definition generate_signature :: "hmac_fn \<Rightarrow> client \<Rightarrow> string \<Rightarrow> string" where
  "generate_signature hmac_sha256 self payload =
     (case client_api_secret self of
        None \<Rightarrow> []
      | Some secret \<Rightarrow> if secret = [] then [] else hexdigest (hmac_sha256 secret payload))"

subsection \<open>_make_request\<close>

text \<open>
  What one HTTP call does: it answers with a status code, a text and a body that parses to
  a JSON object or does not parse (\<open>None\<close>), or it raises one of the exceptions of
  \<open>requests\<close>.
\<close>

datatype http_outcome =
  Response nat string "(string \<times> json) list option"
| Timeout
| ConnectionError
| RequestException string

record request =
  req_method :: string
  req_url :: string
  req_headers :: "(string \<times> string) list"
  req_data :: "(string \<times> json) list option"

record api_io =
  sent :: "request list"
  sleeps :: "nat list"
  error_log :: "string list"

definition char_upper :: "char \<Rightarrow> char" where
  "char_upper c =
     (let n = (of_char c :: nat) in if 97 \<le> n \<and> n \<le> 122 then char_of (n - 32) else c)"

definition rstrip_slash :: "string \<Rightarrow> string" where
  "rstrip_slash s = rev (dropWhile (\<lambda>c. c = CHR ''/'') (rev s))"

text \<open>
  The headers. \<open>json.dumps(data, sort_keys=True)\<close> is the standard library's, a parameter;
  \<open>now\<close> is \<open>int(time.time())\<close>.
\<close>

definition request_headers ::
  "hmac_fn \<Rightarrow> ((string \<times> json) list \<Rightarrow> string) \<Rightarrow> client \<Rightarrow> int \<Rightarrow>
   (string \<times> json) list option \<Rightarrow> (string \<times> string) list" where
  "request_headers hmac_sha256 dumps_sorted self now data =
     [(''Content-Type'', ''application/json''), (''X-Api-Key'', client_api_key self)] @
     (case data of
        None \<Rightarrow> []
      | Some d \<Rightarrow>
          if client_api_secret self \<noteq> None \<and> client_api_secret self \<noteq> Some [] \<and> d \<noteq> []
          then [(''X-Api-Signature'', generate_signature hmac_sha256 self (dumps_sorted d)),
                (''X-Api-Timestamp'', show_int now)]
          else [])"

definition failure :: "json \<Rightarrow> json" where
  "failure msg = JObj [(''success'', JBool False), (''message'', msg)]"

text \<open>
  The body of one attempt: \<open>Inl\<close> is the value the function returns at once, \<open>Inr\<close> the
  \<open>last_error\<close> it goes on with.
\<close>

fun handle_response :: "http_outcome \<Rightarrow> json + string" where
  "handle_response (Response status_code text body) =
     (if status_code = 200 then
        (case body of
           None \<Rightarrow> Inr ''Invalid JSON response''
         | Some result \<Rightarrow>
             (case map_of result ''message'' of Some m \<Rightarrow> Inl m | None \<Rightarrow> Inl (JObj result)))
      else if status_code = 401 then Inl (failure (JStr ''Authentication failed''))
      else if status_code = 403 then Inl (failure (JStr ''Access denied''))
      else if status_code = 404 then Inl (failure (JStr ''Endpoint not found''))
      else Inr (''HTTP '' @ show_nat status_code @ '': '' @ text))"
| "handle_response Timeout = Inr ''Request timed out''"
| "handle_response ConnectionError = Inr ''Connection failed''"
| "handle_response (RequestException e) = Inr e"

text \<open>
  \<open>for attempt in range(retry_count)\<close>; \<open>env attempt\<close> is what the HTTP call of that
  attempt does.
\<close>

function for_attempts ::
  "(nat \<Rightarrow> http_outcome) \<Rightarrow> nat \<Rightarrow> request \<Rightarrow> nat \<Rightarrow> string option \<Rightarrow> api_io \<Rightarrow> json \<times> api_io" where
  "for_attempts env retry_count req attempt last_error io =
     (if attempt < retry_count then
        (let io1 = io\<lparr>sent := sent io @ [req]\<rparr> in
         case handle_response (env attempt) of
           Inl result \<Rightarrow> (result, io1)
         | Inr e \<Rightarrow>
             for_attempts env retry_count req (attempt + 1) (Some e)
               (if attempt < retry_count - 1
                then io1\<lparr>sleeps := sleeps io1 @ [2 ^ attempt]\<rparr> else io1))
      else
        (failure (case last_error of None \<Rightarrow> JNull | Some e \<Rightarrow> JStr e),
         io\<lparr>error_log := error_log io @
               [''Central API request failed after '' @ show_nat retry_count @ '' attempts: '' @
                (case last_error of None \<Rightarrow> ''None'' | Some e \<Rightarrow> e)]\<rparr>))"
  by pat_completeness auto
termination
  by (relation "measure (\<lambda>(env, retry_count, req, attempt, last_error, io). retry_count - attempt)")
    auto

declare for_attempts.simps [simp del]

definition make_request ::
  "hmac_fn \<Rightarrow> ((string \<times> json) list \<Rightarrow> string) \<Rightarrow> client \<Rightarrow> int \<Rightarrow> (nat \<Rightarrow> http_outcome) \<Rightarrow>
   string \<Rightarrow> string \<Rightarrow> (string \<times> json) list option \<Rightarrow> nat \<Rightarrow> json \<times> api_io" where
  "make_request hmac_sha256 dumps_sorted self now env method endpoint data retry_count =
     (let url = rstrip_slash (base_url self) @ endpoint;
          headers = request_headers hmac_sha256 dumps_sorted self now data
      in for_attempts env retry_count
           \<lparr>req_method = (if map char_upper method = ''GET'' then ''GET'' else ''POST''),
            req_url = url, req_headers = headers, req_data = data\<rparr>
           0 None \<lparr>sent = [], sleeps = [], error_log = []\<rparr>)"

section \<open>utils/metering.py: scheduler tasks\<close>

text \<open>
  \<open>frappe.db.set_value(doctype, name, values)\<close> writes the values into the row with that
  primary key. Writes to the store are modelled as succeeding.
\<close>

definition set_value ::
  "string \<Rightarrow> (usage_record \<Rightarrow> usage_record) \<Rightarrow> usage_record list \<Rightarrow> usage_record list" where
  "set_value nm upd db = map (\<lambda>r. if name r = nm then upd r else r) db"

subsection \<open>cleanup_old_records\<close>

text \<open>
  \<open>cutoff_date = add_days(today(), -30)\<close>, a date; a creation time is compared with its
  midnight. \<open>today\<close> is the day number read from the clock.
\<close>

definition cutoff_date :: "int \<Rightarrow> int" where
  "cutoff_date today = (today - 30) * 86400"

definition cleanup_old_records :: "int \<Rightarrow> usage_record list \<Rightarrow> usage_record list" where
  "cleanup_old_records today db =
     filter (\<lambda>r. \<not> (synced r \<and> creation r < cutoff_date today)) db"

subsection \<open>aggregate_usage\<close>

text \<open>
  \<open>get_datetime(ts).replace(minute=0, second=0, microsecond=0)\<close> and
  \<open>timedelta(hours=1)\<close>, in seconds.
\<close>

definition hour_of :: "int \<Rightarrow> int" where
  "hour_of t = t - t mod 3600"

record usage_group =
  group_resource_type :: resource
  group_quantity :: rat
  group_hour :: int
  group_records :: "string list"

text \<open>
  The dictionary \<open>aggregated\<close> keeps its keys in insertion order. Its key
  \<open>f"{resource}_{hour}"\<close> is modelled as the pair it is printed from.
\<close>

type_synonym group_key = "resource \<times> int"

definition group_key_of :: "usage_record \<Rightarrow> group_key" where
  "group_key_of r = (resource_type r, hour_of (timestamp r))"

definition add_to_group ::
  "usage_record \<Rightarrow> (group_key \<times> usage_group) list \<Rightarrow> (group_key \<times> usage_group) list" where
  "add_to_group r agg =
     (let key = group_key_of r;
          agg1 = (if map_of agg key = None
                  then agg @ [(key, \<lparr>group_resource_type = resource_type r, group_quantity = 0,
                                      group_hour = hour_of (timestamp r), group_records = []\<rparr>)]
                  else agg)
      in map (\<lambda>(k, g). if k = key
                         then (k, g\<lparr>group_quantity := group_quantity g + quantity r,
                                    group_records := group_records g @ [name r]\<rparr>)
                         else (k, g)) agg1)"

definition group_usage :: "usage_record list \<Rightarrow> (group_key \<times> usage_group) list" where
  "group_usage records = fold add_to_group records []"

text \<open>
  The marking loops. The state is the table, \<open>aggregated_count\<close> and \<open>resources\<close>;
  \<open>clock k\<close> is the reading of \<open>now_datetime()\<close> at the k-th write of the run.
\<close>

fun mark_records ::
  "(nat \<Rightarrow> int) \<Rightarrow> int \<Rightarrow> string list \<Rightarrow> usage_record list \<times> nat \<Rightarrow> usage_record list \<times> nat" where
  "mark_records clock hour [] (db, n) = (db, n)"
| "mark_records clock hour (record_name # rest) (db, n) =
     mark_records clock hour rest
       (set_value record_name
          (\<lambda>r. r\<lparr>aggregated := True, aggregated_at := Some (clock n),
                 period_start := Some hour, period_end := Some (hour + 3600)\<rparr>) db,
        n + 1)"

fun mark_groups ::
  "(nat \<Rightarrow> int) \<Rightarrow> (group_key \<times> usage_group) list \<Rightarrow>
   usage_record list \<times> nat \<times> resource list \<Rightarrow> usage_record list \<times> nat \<times> resource list" where
  "mark_groups clock [] s = s"
| "mark_groups clock ((key, data) # rest) (db, n, resources) =
     (let (db1, n1) = mark_records clock (group_hour data) (group_records data) (db, n)
      in mark_groups clock rest (db1, n1, resources @ [group_resource_type data]))"

record aggregate_result =
  aggregated_count :: nat
  resources :: "resource set"

definition aggregate_select :: "usage_record list \<Rightarrow> usage_record list" where
  "aggregate_select db = sort_key timestamp (filter (\<lambda>r. \<not> aggregated r) db)"

definition aggregate_usage ::
  "(nat \<Rightarrow> int) \<Rightarrow> usage_record list \<Rightarrow> aggregate_result \<times> usage_record list" where
  "aggregate_usage clock db =
     (let records = aggregate_select db in
      if records = [] then (\<lparr>aggregated_count = 0, resources = {}\<rparr>, db)
      else
        let (db1, n, rs) = mark_groups clock (group_usage records) (db, 0, [])
        in (\<lparr>aggregated_count = n, resources = set rs\<rparr>, db1))"

subsection \<open>sync_usage_to_central\<close>









text \<open>
  The defaults \<open>get_settings\<close> returns when no settings document exists, the licence and
  usage records of the test suite's fixtures, and a database that raises nothing.
\<close>

definition default_settings :: settings where
  "default_settings =
     \<lparr>license_key = [], api_key = [], api_secret = None,
      warning_threshold = 80, hard_limit_threshold = 100,
      sync_interval_hours = 1, cache_ttl_seconds = 300,
      block_on_exceeded = False, send_alert_emails = False, alert_email = [],
      last_usage_sync = None\<rparr>"

definition example_license :: license where
  "example_license =
     \<lparr>tier = ''Builder'', status = ''Active'', is_valid = True,
      resource_limits = [(''api_calls'', 1000), (''storage_gb'', 10), (''bandwidth_gb'', 0)]\<rparr>"


definition example_usage :: "resource \<Rightarrow> rat \<Rightarrow> usage_record" where
  "example_usage resource q =
     \<lparr>name = ''UR-0001'', resource_type = resource, quantity = q, timestamp = 0, creation = 0,
      aggregated = False, aggregated_at = None, period_start = None, period_end = None,
      synced = False, synced_at = None\<rparr>"

section \<open>Floating point: evaluation\<close>

lemma floor_rat_numeral [simp]:
  "\<lfloor>numeral a / numeral b :: rat\<rfloor> = numeral a div numeral b"
  by (metis floor_divide_of_int_eq of_int_numeral)

lemma floor_rat_one_numeral [simp]:
  "\<lfloor>1 / numeral b :: rat\<rfloor> = 1 div numeral b"
  by (metis floor_divide_of_int_eq of_int_numeral of_int_1)

lemma py_float_eval:
  assumes "x \<noteq> 0" and "binary_exponent \<bar>x\<bar> = e" and "max (e - 52) (- 1074) = q"
    and "round_half_even (\<bar>x\<bar> / pow2 q) = m"
  shows "py_float x = sgn x * of_int m * pow2 q"
  using assms by (simp add: py_float_def Let_def)

lemma pow2_pos: "0 < pow2 e"
  by (simp add: pow2_def)

lemma round_half_even_nonneg: "0 \<le> y \<Longrightarrow> 0 \<le> round_half_even y"
  by (auto simp: round_half_even_def Let_def)

lemma py_float_nonpos:
  assumes "x \<le> 0"
  shows "py_float x \<le> 0"
proof (cases "x = 0")
  case True
  then show ?thesis by (simp add: py_float_def)
next
  case False
  define ulp where "ulp = pow2 (max (binary_exponent \<bar>x\<bar> - 52) (- 1074))"
  have ulp: "0 < ulp"
    unfolding ulp_def by (rule pow2_pos)
  then have "0 \<le> \<bar>x\<bar> / ulp"
    by simp
  then have "0 \<le> round_half_even (\<bar>x\<bar> / ulp)"
    by (rule round_half_even_nonneg)
  then have "0 \<le> rat_of_int (round_half_even (\<bar>x\<bar> / ulp)) * ulp"
    using ulp by simp
  moreover have "py_float x = - (rat_of_int (round_half_even (\<bar>x\<bar> / ulp)) * ulp)"
    using False assms by (simp add: py_float_def Let_def ulp_def)
  ultimately show ?thesis
    by simp
qed

lemma percentage_1000_of_1000:
  "float_mul (float_div (py_float 1000) 1000) 100 = 100"
proof -
  have s1: "py_float 1000 = 1000"
  proof -
    have e: "binary_exponent \<bar>1000\<bar> = 9"
      by (simp add: binary_exponent_def pow2_def floor_log2.simps Let_def)
    have m: "round_half_even (\<bar>1000\<bar> / pow2 (- 43)) = 8796093022208000"
      by (simp add: round_half_even_def pow2_def Let_def)
    show ?thesis
      using py_float_eval [of "1000" "9" "- 43" "8796093022208000", OF _ e _ m]
      by (simp add: pow2_def)
  qed
  have s2: "float_div 1000 1000 = 1"
  proof -
    have e: "binary_exponent \<bar>1000 / 1000\<bar> = 0"
      by (simp add: binary_exponent_def pow2_def floor_log2.simps Let_def)
    have m: "round_half_even (\<bar>1000 / 1000\<bar> / pow2 (- 52)) = 4503599627370496"
      by (simp add: round_half_even_def pow2_def Let_def)
    show ?thesis
      unfolding float_div_def
      using py_float_eval [of "1000 / 1000" "0" "- 52" "4503599627370496", OF _ e _ m]
      by (simp add: pow2_def)
  qed
  have s3: "float_mul 1 100 = 100"
  proof -
    have e: "binary_exponent \<bar>1 * 100\<bar> = 6"
      by (simp add: binary_exponent_def pow2_def floor_log2.simps Let_def)
    have m: "round_half_even (\<bar>1 * 100\<bar> / pow2 (- 46)) = 7036874417766400"
      by (simp add: round_half_even_def pow2_def Let_def)
    show ?thesis
      unfolding float_mul_def
      using py_float_eval [of "1 * 100" "6" "- 46" "7036874417766400", OF _ e _ m]
      by (simp add: pow2_def)
  qed
  show ?thesis
    unfolding s1 s2 s3 by (rule refl)
qed

lemma percentage_800_of_1000:
  "float_mul (float_div (py_float 800) 1000) 100 = 80"
proof -
  have s1: "py_float 800 = 800"
  proof -
    have e: "binary_exponent \<bar>800\<bar> = 9"
      by (simp add: binary_exponent_def pow2_def floor_log2.simps Let_def)
    have m: "round_half_even (\<bar>800\<bar> / pow2 (- 43)) = 7036874417766400"
      by (simp add: round_half_even_def pow2_def Let_def)
    show ?thesis
      using py_float_eval [of "800" "9" "- 43" "7036874417766400", OF _ e _ m]
      by (simp add: pow2_def)
  qed
  have s2: "float_div 800 1000 = (3602879701896397 / 4503599627370496)"
  proof -
    have e: "binary_exponent \<bar>800 / 1000\<bar> = - 1"
      by (simp add: binary_exponent_def pow2_def floor_log2.simps Let_def)
    have m: "round_half_even (\<bar>800 / 1000\<bar> / pow2 (- 53)) = 7205759403792794"
      by (simp add: round_half_even_def pow2_def Let_def)
    show ?thesis
      unfolding float_div_def
      using py_float_eval [of "800 / 1000" "- 1" "- 53" "7205759403792794", OF _ e _ m]
      by (simp add: pow2_def)
  qed
  have s3: "float_mul (3602879701896397 / 4503599627370496) 100 = 80"
  proof -
    have e: "binary_exponent \<bar>(3602879701896397 / 4503599627370496) * 100\<bar> = 6"
      by (simp add: binary_exponent_def pow2_def floor_log2.simps Let_def)
    have m: "round_half_even (\<bar>(3602879701896397 / 4503599627370496) * 100\<bar> / pow2 (- 46)) = 5629499534213120"
      by (simp add: round_half_even_def pow2_def Let_def)
    show ?thesis
      unfolding float_mul_def
      using py_float_eval [of "(3602879701896397 / 4503599627370496) * 100" "6" "- 46" "5629499534213120", OF _ e _ m]
      by (simp add: pow2_def)
  qed
  show ?thesis
    unfolding s1 s2 s3 by (rule refl)
qed

lemma percentage_500_of_1000:
  "float_mul (float_div (py_float 500) 1000) 100 = 50"
proof -
  have s1: "py_float 500 = 500"
  proof -
    have e: "binary_exponent \<bar>500\<bar> = 8"
      by (simp add: binary_exponent_def pow2_def floor_log2.simps Let_def)
    have m: "round_half_even (\<bar>500\<bar> / pow2 (- 44)) = 8796093022208000"
      by (simp add: round_half_even_def pow2_def Let_def)
    show ?thesis
      using py_float_eval [of "500" "8" "- 44" "8796093022208000", OF _ e _ m]
      by (simp add: pow2_def)
  qed
  have s2: "float_div 500 1000 = (1 / 2)"
  proof -
    have e: "binary_exponent \<bar>500 / 1000\<bar> = - 1"
      by (simp add: binary_exponent_def pow2_def floor_log2.simps Let_def)
    have m: "round_half_even (\<bar>500 / 1000\<bar> / pow2 (- 53)) = 4503599627370496"
      by (simp add: round_half_even_def pow2_def Let_def)
    show ?thesis
      unfolding float_div_def
      using py_float_eval [of "500 / 1000" "- 1" "- 53" "4503599627370496", OF _ e _ m]
      by (simp add: pow2_def)
  qed
  have s3: "float_mul (1 / 2) 100 = 50"
  proof -
    have e: "binary_exponent \<bar>(1 / 2) * 100\<bar> = 5"
      by (simp add: binary_exponent_def pow2_def floor_log2.simps Let_def)
    have m: "round_half_even (\<bar>(1 / 2) * 100\<bar> / pow2 (- 47)) = 7036874417766400"
      by (simp add: round_half_even_def pow2_def Let_def)
    show ?thesis
      unfolding float_mul_def
      using py_float_eval [of "(1 / 2) * 100" "5" "- 47" "7036874417766400", OF _ e _ m]
      by (simp add: pow2_def)
  qed
  show ?thesis
    unfolding s1 s2 s3 by (rule refl)
qed

lemma percentage_100_of_1000:
  "float_mul (float_div (py_float 100) 1000) 100 = 10"
proof -
  have s1: "py_float 100 = 100"
  proof -
    have e: "binary_exponent \<bar>100\<bar> = 6"
      by (simp add: binary_exponent_def pow2_def floor_log2.simps Let_def)
    have m: "round_half_even (\<bar>100\<bar> / pow2 (- 46)) = 7036874417766400"
      by (simp add: round_half_even_def pow2_def Let_def)
    show ?thesis
      using py_float_eval [of "100" "6" "- 46" "7036874417766400", OF _ e _ m]
      by (simp add: pow2_def)
  qed
  have s2: "float_div 100 1000 = (3602879701896397 / 36028797018963968)"
  proof -
    have e: "binary_exponent \<bar>100 / 1000\<bar> = - 4"
      by (simp add: binary_exponent_def pow2_def floor_log2.simps Let_def)
    have m: "round_half_even (\<bar>100 / 1000\<bar> / pow2 (- 56)) = 7205759403792794"
      by (simp add: round_half_even_def pow2_def Let_def)
    show ?thesis
      unfolding float_div_def
      using py_float_eval [of "100 / 1000" "- 4" "- 56" "7205759403792794", OF _ e _ m]
      by (simp add: pow2_def)
  qed
  have s3: "float_mul (3602879701896397 / 36028797018963968) 100 = 10"
  proof -
    have e: "binary_exponent \<bar>(3602879701896397 / 36028797018963968) * 100\<bar> = 3"
      by (simp add: binary_exponent_def pow2_def floor_log2.simps Let_def)
    have m: "round_half_even (\<bar>(3602879701896397 / 36028797018963968) * 100\<bar> / pow2 (- 49)) = 5629499534213120"
      by (simp add: round_half_even_def pow2_def Let_def)
    show ?thesis
      unfolding float_mul_def
      using py_float_eval [of "(3602879701896397 / 36028797018963968) * 100" "3" "- 49" "5629499534213120", OF _ e _ m]
      by (simp add: pow2_def)
  qed
  show ?thesis
    unfolding s1 s2 s3 by (rule refl)
qed

lemma percentage_1150_of_1000:
  "float_mul (float_div (py_float 1150) 1000) 100 = (8092405580431359 / 70368744177664)"
proof -
  have s1: "py_float 1150 = 1150"
  proof -
    have e: "binary_exponent \<bar>1150\<bar> = 10"
      by (simp add: binary_exponent_def pow2_def floor_log2.simps Let_def)
    have m: "round_half_even (\<bar>1150\<bar> / pow2 (- 42)) = 5057753487769600"
      by (simp add: round_half_even_def pow2_def Let_def)
    show ?thesis
      using py_float_eval [of "1150" "10" "- 42" "5057753487769600", OF _ e _ m]
      by (simp add: pow2_def)
  qed
  have s2: "float_div 1150 1000 = (2589569785738035 / 2251799813685248)"
  proof -
    have e: "binary_exponent \<bar>1150 / 1000\<bar> = 0"
      by (simp add: binary_exponent_def pow2_def floor_log2.simps Let_def)
    have m: "round_half_even (\<bar>1150 / 1000\<bar> / pow2 (- 52)) = 5179139571476070"
      by (simp add: round_half_even_def pow2_def Let_def)
    show ?thesis
      unfolding float_div_def
      using py_float_eval [of "1150 / 1000" "0" "- 52" "5179139571476070", OF _ e _ m]
      by (simp add: pow2_def)
  qed
  have s3: "float_mul (2589569785738035 / 2251799813685248) 100 = (8092405580431359 / 70368744177664)"
  proof -
    have e: "binary_exponent \<bar>(2589569785738035 / 2251799813685248) * 100\<bar> = 6"
      by (simp add: binary_exponent_def pow2_def floor_log2.simps Let_def)
    have m: "round_half_even (\<bar>(2589569785738035 / 2251799813685248) * 100\<bar> / pow2 (- 46)) = 8092405580431359"
      by (simp add: round_half_even_def pow2_def Let_def)
    show ?thesis
      unfolding float_mul_def
      using py_float_eval [of "(2589569785738035 / 2251799813685248) * 100" "6" "- 46" "8092405580431359", OF _ e _ m]
      by (simp add: pow2_def)
  qed
  show ?thesis
    unfolding s1 s2 s3 by (rule refl)
qed

lemma excess_15000_over_1000:
  "float_sub (py_float 15000) 1000 = 14000"
proof -
  have s1: "py_float 15000 = 15000"
  proof -
    have e: "binary_exponent \<bar>15000\<bar> = 13"
      by (simp add: binary_exponent_def pow2_def floor_log2.simps Let_def)
    have m: "round_half_even (\<bar>15000\<bar> / pow2 (- 39)) = 8246337208320000"
      by (simp add: round_half_even_def pow2_def Let_def)
    show ?thesis
      using py_float_eval [of "15000" "13" "- 39" "8246337208320000", OF _ e _ m]
      by (simp add: pow2_def)
  qed
  have s2: "float_sub 15000 1000 = 14000"
  proof -
    have e: "binary_exponent \<bar>15000 - 1000\<bar> = 13"
      by (simp add: binary_exponent_def pow2_def floor_log2.simps Let_def)
    have m: "round_half_even (\<bar>15000 - 1000\<bar> / pow2 (- 39)) = 7696581394432000"
      by (simp add: round_half_even_def pow2_def Let_def)
    show ?thesis
      unfolding float_sub_def
      using py_float_eval [of "15000 - 1000" "13" "- 39" "7696581394432000", OF _ e _ m]
      by (simp add: pow2_def)
  qed
  show ?thesis
    unfolding s1 s2 by (rule refl)
qed

lemma excess_15_over_10:
  "float_sub (py_float 15) 10 = 5"
proof -
  have s1: "py_float 15 = 15"
  proof -
    have e: "binary_exponent \<bar>15\<bar> = 3"
      by (simp add: binary_exponent_def pow2_def floor_log2.simps Let_def)
    have m: "round_half_even (\<bar>15\<bar> / pow2 (- 49)) = 8444249301319680"
      by (simp add: round_half_even_def pow2_def Let_def)
    show ?thesis
      using py_float_eval [of "15" "3" "- 49" "8444249301319680", OF _ e _ m]
      by (simp add: pow2_def)
  qed
  have s2: "float_sub 15 10 = 5"
  proof -
    have e: "binary_exponent \<bar>15 - 10\<bar> = 2"
      by (simp add: binary_exponent_def pow2_def floor_log2.simps Let_def)
    have m: "round_half_even (\<bar>15 - 10\<bar> / pow2 (- 50)) = 5629499534213120"
      by (simp add: round_half_even_def pow2_def Let_def)
    show ?thesis
      unfolding float_sub_def
      using py_float_eval [of "15 - 10" "2" "- 50" "5629499534213120", OF _ e _ m]
      by (simp add: pow2_def)
  qed
  show ?thesis
    unfolding s1 s2 by (rule refl)
qed

lemma excess_500_over_1000:
  "float_sub (py_float 500) 1000 = (- 500)"
proof -
  have s1: "py_float 500 = 500"
  proof -
    have e: "binary_exponent \<bar>500\<bar> = 8"
      by (simp add: binary_exponent_def pow2_def floor_log2.simps Let_def)
    have m: "round_half_even (\<bar>500\<bar> / pow2 (- 44)) = 8796093022208000"
      by (simp add: round_half_even_def pow2_def Let_def)
    show ?thesis
      using py_float_eval [of "500" "8" "- 44" "8796093022208000", OF _ e _ m]
      by (simp add: pow2_def)
  qed
  have s2: "float_sub 500 1000 = (- 500)"
  proof -
    have e: "binary_exponent \<bar>500 - 1000\<bar> = 8"
      by (simp add: binary_exponent_def pow2_def floor_log2.simps Let_def)
    have m: "round_half_even (\<bar>500 - 1000\<bar> / pow2 (- 44)) = 8796093022208000"
      by (simp add: round_half_even_def pow2_def Let_def)
    show ?thesis
      unfolding float_sub_def
      using py_float_eval [of "500 - 1000" "8" "- 44" "8796093022208000", OF _ e _ m]
      by (simp add: pow2_def)
  qed
  show ?thesis
    unfolding s1 s2 by (rule refl)
qed

lemma excess_1001_over_1000:
  "float_sub (py_float 1001) 1000 = 1"
proof -
  have s1: "py_float 1001 = 1001"
  proof -
    have e: "binary_exponent \<bar>1001\<bar> = 9"
      by (simp add: binary_exponent_def pow2_def floor_log2.simps Let_def)
    have m: "round_half_even (\<bar>1001\<bar> / pow2 (- 43)) = 8804889115230208"
      by (simp add: round_half_even_def pow2_def Let_def)
    show ?thesis
      using py_float_eval [of "1001" "9" "- 43" "8804889115230208", OF _ e _ m]
      by (simp add: pow2_def)
  qed
  have s2: "float_sub 1001 1000 = 1"
  proof -
    have e: "binary_exponent \<bar>1001 - 1000\<bar> = 0"
      by (simp add: binary_exponent_def pow2_def floor_log2.simps Let_def)
    have m: "round_half_even (\<bar>1001 - 1000\<bar> / pow2 (- 52)) = 4503599627370496"
      by (simp add: round_half_even_def pow2_def Let_def)
    show ?thesis
      unfolding float_sub_def
      using py_float_eval [of "1001 - 1000" "0" "- 52" "4503599627370496", OF _ e _ m]
      by (simp add: pow2_def)
  qed
  show ?thesis
    unfolding s1 s2 by (rule refl)
qed

lemma excess_101_over_100:
  "float_sub (py_float 101) 100 = 1"
proof -
  have s1: "py_float 101 = 101"
  proof -
    have e: "binary_exponent \<bar>101\<bar> = 6"
      by (simp add: binary_exponent_def pow2_def floor_log2.simps Let_def)
    have m: "round_half_even (\<bar>101\<bar> / pow2 (- 46)) = 7107243161944064"
      by (simp add: round_half_even_def pow2_def Let_def)
    show ?thesis
      using py_float_eval [of "101" "6" "- 46" "7107243161944064", OF _ e _ m]
      by (simp add: pow2_def)
  qed
  have s2: "float_sub 101 100 = 1"
  proof -
    have e: "binary_exponent \<bar>101 - 100\<bar> = 0"
      by (simp add: binary_exponent_def pow2_def floor_log2.simps Let_def)
    have m: "round_half_even (\<bar>101 - 100\<bar> / pow2 (- 52)) = 4503599627370496"
      by (simp add: round_half_even_def pow2_def Let_def)
    show ?thesis
      unfolding float_sub_def
      using py_float_eval [of "101 - 100" "0" "- 52" "4503599627370496", OF _ e _ m]
      by (simp add: pow2_def)
  qed
  show ?thesis
    unfolding s1 s2 by (rule refl)
qed

lemma cost_14000_api_calls:
  "py_round2 (float_mul (float_div 14000 10000) (1 / 2)) = (3152519739159347 / 4503599627370496)"
proof -
  have s1: "float_div 14000 10000 = (3152519739159347 / 2251799813685248)"
  proof -
    have e: "binary_exponent \<bar>14000 / 10000\<bar> = 0"
      by (simp add: binary_exponent_def pow2_def floor_log2.simps Let_def)
    have m: "round_half_even (\<bar>14000 / 10000\<bar> / pow2 (- 52)) = 6305039478318694"
      by (simp add: round_half_even_def pow2_def Let_def)
    show ?thesis
      unfolding float_div_def
      using py_float_eval [of "14000 / 10000" "0" "- 52" "6305039478318694", OF _ e _ m]
      by (simp add: pow2_def)
  qed
  have s2: "float_mul (3152519739159347 / 2251799813685248) (1 / 2) = (3152519739159347 / 4503599627370496)"
  proof -
    have e: "binary_exponent \<bar>(3152519739159347 / 2251799813685248) * (1 / 2)\<bar> = - 1"
      by (simp add: binary_exponent_def pow2_def floor_log2.simps Let_def)
    have m: "round_half_even (\<bar>(3152519739159347 / 2251799813685248) * (1 / 2)\<bar> / pow2 (- 53)) = 6305039478318694"
      by (simp add: round_half_even_def pow2_def Let_def)
    show ?thesis
      unfolding float_mul_def
      using py_float_eval [of "(3152519739159347 / 2251799813685248) * (1 / 2)" "- 1" "- 53" "6305039478318694", OF _ e _ m]
      by (simp add: pow2_def)
  qed
  have s3: "py_round2 (3152519739159347 / 4503599627370496) = (3152519739159347 / 4503599627370496)"
  proof -
    have k: "round_half_even ((3152519739159347 / 4503599627370496) * 100) = 70"
      by (simp add: round_half_even_def Let_def)
    have e: "binary_exponent \<bar>70 / 100\<bar> = - 1"
      by (simp add: binary_exponent_def pow2_def floor_log2.simps Let_def)
    have m: "round_half_even (\<bar>70 / 100\<bar> / pow2 (- 53)) = 6305039478318694"
      by (simp add: round_half_even_def pow2_def Let_def)
    show ?thesis
      unfolding py_round2_def k
      using py_float_eval [of "70 / 100" "- 1" "- 53" "6305039478318694", OF _ e _ m]
      by (simp add: pow2_def)
  qed
  show ?thesis
    unfolding s1 s2 s3 by (rule refl)
qed

lemma cost_5_storage_gb:
  "py_round2 (float_mul 5 (3 / 2)) = (15 / 2)"
proof -
  have s1: "float_mul 5 (3 / 2) = (15 / 2)"
  proof -
    have e: "binary_exponent \<bar>5 * (3 / 2)\<bar> = 2"
      by (simp add: binary_exponent_def pow2_def floor_log2.simps Let_def)
    have m: "round_half_even (\<bar>5 * (3 / 2)\<bar> / pow2 (- 50)) = 8444249301319680"
      by (simp add: round_half_even_def pow2_def Let_def)
    show ?thesis
      unfolding float_mul_def
      using py_float_eval [of "5 * (3 / 2)" "2" "- 50" "8444249301319680", OF _ e _ m]
      by (simp add: pow2_def)
  qed
  have s2: "py_round2 (15 / 2) = (15 / 2)"
  proof -
    have k: "round_half_even ((15 / 2) * 100) = 750"
      by (simp add: round_half_even_def Let_def)
    have e: "binary_exponent \<bar>750 / 100\<bar> = 2"
      by (simp add: binary_exponent_def pow2_def floor_log2.simps Let_def)
    have m: "round_half_even (\<bar>750 / 100\<bar> / pow2 (- 50)) = 8444249301319680"
      by (simp add: round_half_even_def pow2_def Let_def)
    show ?thesis
      unfolding py_round2_def k
      using py_float_eval [of "750 / 100" "2" "- 50" "8444249301319680", OF _ e _ m]
      by (simp add: pow2_def)
  qed
  show ?thesis
    unfolding s1 s2 by (rule refl)
qed

lemma cost_1_api_call:
  "py_round2 (float_mul (float_div 1 10000) (1 / 2)) = 0"
proof -
  have s1: "float_div 1 10000 = (7378697629483821 / 73786976294838206464)"
  proof -
    have e: "binary_exponent \<bar>1 / 10000\<bar> = - 14"
      by (simp add: binary_exponent_def pow2_def floor_log2.simps Let_def)
    have m: "round_half_even (\<bar>1 / 10000\<bar> / pow2 (- 66)) = 7378697629483821"
      by (simp add: round_half_even_def pow2_def Let_def)
    show ?thesis
      unfolding float_div_def
      using py_float_eval [of "1 / 10000" "- 14" "- 66" "7378697629483821", OF _ e _ m]
      by (simp add: pow2_def)
  qed
  have s2: "float_mul (7378697629483821 / 73786976294838206464) (1 / 2) = (7378697629483821 / 147573952589676412928)"
  proof -
    have e: "binary_exponent \<bar>(7378697629483821 / 73786976294838206464) * (1 / 2)\<bar> = - 15"
      by (simp add: binary_exponent_def pow2_def floor_log2.simps Let_def)
    have m: "round_half_even (\<bar>(7378697629483821 / 73786976294838206464) * (1 / 2)\<bar> / pow2 (- 67)) = 7378697629483821"
      by (simp add: round_half_even_def pow2_def Let_def)
    show ?thesis
      unfolding float_mul_def
      using py_float_eval [of "(7378697629483821 / 73786976294838206464) * (1 / 2)" "- 15" "- 67" "7378697629483821", OF _ e _ m]
      by (simp add: pow2_def)
  qed
  have s3: "py_round2 (7378697629483821 / 147573952589676412928) = 0"
  proof -
    have k: "round_half_even ((7378697629483821 / 147573952589676412928) * 100) = 0"
      by (simp add: round_half_even_def Let_def)
    show ?thesis
      unfolding py_round2_def k by (simp add: py_float_def)
  qed
  show ?thesis
    unfolding s1 s2 s3 by (rule refl)
qed

lemma cost_1_ai_query:
  "py_round2 (float_mul 1 (py_float (3 / 200))) = (5764607523034235 / 576460752303423488)"
proof -
  have s1: "py_float (3 / 200) = (1080863910568919 / 72057594037927936)"
  proof -
    have e: "binary_exponent \<bar>(3 / 200)\<bar> = - 7"
      by (simp add: binary_exponent_def pow2_def floor_log2.simps Let_def)
    have m: "round_half_even (\<bar>(3 / 200)\<bar> / pow2 (- 59)) = 8646911284551352"
      by (simp add: round_half_even_def pow2_def Let_def)
    show ?thesis
      using py_float_eval [of "(3 / 200)" "- 7" "- 59" "8646911284551352", OF _ e _ m]
      by (simp add: pow2_def)
  qed
  have s2: "float_mul 1 (1080863910568919 / 72057594037927936) = (1080863910568919 / 72057594037927936)"
  proof -
    have e: "binary_exponent \<bar>1 * (1080863910568919 / 72057594037927936)\<bar> = - 7"
      by (simp add: binary_exponent_def pow2_def floor_log2.simps Let_def)
    have m: "round_half_even (\<bar>1 * (1080863910568919 / 72057594037927936)\<bar> / pow2 (- 59)) = 8646911284551352"
      by (simp add: round_half_even_def pow2_def Let_def)
    show ?thesis
      unfolding float_mul_def
      using py_float_eval [of "1 * (1080863910568919 / 72057594037927936)" "- 7" "- 59" "8646911284551352", OF _ e _ m]
      by (simp add: pow2_def)
  qed
  have s3: "py_round2 (1080863910568919 / 72057594037927936) = (5764607523034235 / 576460752303423488)"
  proof -
    have k: "round_half_even ((1080863910568919 / 72057594037927936) * 100) = 1"
      by (simp add: round_half_even_def Let_def)
    have e: "binary_exponent \<bar>1 / 100\<bar> = - 7"
      by (simp add: binary_exponent_def pow2_def floor_log2.simps Let_def)
    have m: "round_half_even (\<bar>1 / 100\<bar> / pow2 (- 59)) = 5764607523034235"
      by (simp add: round_half_even_def pow2_def Let_def)
    show ?thesis
      unfolding py_round2_def k
      using py_float_eval [of "1 / 100" "- 7" "- 59" "5764607523034235", OF _ e _ m]
      by (simp add: pow2_def)
  qed
  show ?thesis
    unfolding s1 s2 s3 by (rule refl)
qed

lemma double_7_10:
  "py_float (7 / 10) = (3152519739159347 / 4503599627370496)"
proof -
  have s1: "py_float (7 / 10) = (3152519739159347 / 4503599627370496)"
  proof -
    have e: "binary_exponent \<bar>(7 / 10)\<bar> = - 1"
      by (simp add: binary_exponent_def pow2_def floor_log2.simps Let_def)
    have m: "round_half_even (\<bar>(7 / 10)\<bar> / pow2 (- 53)) = 6305039478318694"
      by (simp add: round_half_even_def pow2_def Let_def)
    show ?thesis
      using py_float_eval [of "(7 / 10)" "- 1" "- 53" "6305039478318694", OF _ e _ m]
      by (simp add: pow2_def)
  qed
  show ?thesis
    unfolding s1 by (rule refl)
qed

lemma double_1_100:
  "py_float (1 / 100) = (5764607523034235 / 576460752303423488)"
proof -
  have s1: "py_float (1 / 100) = (5764607523034235 / 576460752303423488)"
  proof -
    have e: "binary_exponent \<bar>(1 / 100)\<bar> = - 7"
      by (simp add: binary_exponent_def pow2_def floor_log2.simps Let_def)
    have m: "round_half_even (\<bar>(1 / 100)\<bar> / pow2 (- 59)) = 5764607523034235"
      by (simp add: round_half_even_def pow2_def Let_def)
    show ?thesis
      using py_float_eval [of "(1 / 100)" "- 7" "- 59" "5764607523034235", OF _ e _ m]
      by (simp add: pow2_def)
  qed
  show ?thesis
    unfolding s1 by (rule refl)
qed

section \<open>Limit evaluation\<close>

text \<open>
  C1, as the code has it. \<open>check_limits\<close>, for every resource: a limit of 0 gives \<open>Ok\<close>
  whatever the usage. Otherwise the percentage is the float \<open>(current / limit) * 100\<close>, the
  one \<open>get_usage_percentage\<close> returns, and the result is \<open>Exceeded\<close> when the percentage is at
  or above the hard-limit threshold, \<open>Warning\<close> when it is at or above the warning threshold
  and below the hard-limit threshold, and \<open>Ok\<close> when it is below both thresholds. The
  comparisons are \<open>\<ge>\<close>: a computed percentage equal to a threshold belongs to the higher
  state.
\<close>

theorem check_limits_states:
  "(get_resource_limit lic r = 0 \<longrightarrow> check_limits st lic recs ms r = Ok) \<and>
   (get_resource_limit lic r \<noteq> 0 \<longrightarrow>
      get_usage_percentage lic recs ms r
        = float_mul (float_div (get_current_usage recs ms r) (get_resource_limit lic r)) 100) \<and>
   (get_resource_limit lic r \<noteq> 0 \<and>
    get_usage_percentage lic recs ms r \<ge> hard_limit_threshold st
      \<longrightarrow> check_limits st lic recs ms r = Exceeded) \<and>
   (get_resource_limit lic r \<noteq> 0 \<and>
    get_usage_percentage lic recs ms r \<ge> warning_threshold st \<and>
    get_usage_percentage lic recs ms r < hard_limit_threshold st
      \<longrightarrow> check_limits st lic recs ms r = Warning) \<and>
   (get_resource_limit lic r \<noteq> 0 \<and>
    get_usage_percentage lic recs ms r < warning_threshold st \<and>
    get_usage_percentage lic recs ms r < hard_limit_threshold st
      \<longrightarrow> check_limits st lic recs ms r = Ok)"
  unfolding check_limits_def get_usage_percentage_def Let_def by auto

theorem check_limits_states_witness:
  "check_limits default_settings (Some example_license)
     [example_usage ''bandwidth_gb'' 999999] 0 ''bandwidth_gb'' = Ok \<and>
   check_limits default_settings (Some example_license)
     [example_usage ''api_calls'' 1000] 0 ''api_calls'' = Exceeded \<and>
   check_limits default_settings (Some example_license)
     [example_usage ''api_calls'' 800] 0 ''api_calls'' = Warning \<and>
   check_limits default_settings (Some example_license)
     [example_usage ''api_calls'' 500] 0 ''api_calls'' = Ok"
  using
    check_limits_states [of "Some example_license" "''bandwidth_gb''" default_settings
      "[example_usage ''bandwidth_gb'' 999999]" 0]
    check_limits_states [of "Some example_license" "''api_calls''" default_settings
      "[example_usage ''api_calls'' 1000]" 0]
    check_limits_states [of "Some example_license" "''api_calls''" default_settings
      "[example_usage ''api_calls'' 800]" 0]
    check_limits_states [of "Some example_license" "''api_calls''" default_settings
      "[example_usage ''api_calls'' 500]" 0]
  by (simp add: get_resource_limit_def get_current_usage_def get_usage_percentage_def date_of_def
        default_settings_def example_license_def example_usage_def
        percentage_1000_of_1000 percentage_800_of_1000 percentage_500_of_1000)

text \<open>
  The claim's states do not hold as written. With a warning threshold of 50 and a hard-limit
  threshold of 0, which the Settings validation accepts, a usage of 10 percent is below the
  warning threshold and \<open>check_limits\<close> returns \<open>Exceeded\<close>. With a hard-limit threshold of
  115, a usage of 1150 on a limit of 1000 is exactly 115 percent of the limit, and
  \<open>check_limits\<close> returns \<open>Warning\<close>: the float \<open>(1150 / 1000) * 100\<close> is below 115.
\<close>

theorem check_limits_states_counterexample:
  "SimbotixCoreSettings_validate
     (default_settings\<lparr>warning_threshold := 50, hard_limit_threshold := 0\<rparr>) = Inr () \<and>
   (100 / 1000 * 100 :: rat) < 50 \<and>
   check_limits (default_settings\<lparr>warning_threshold := 50, hard_limit_threshold := 0\<rparr>)
     (Some example_license) [example_usage ''api_calls'' 100] 0 ''api_calls'' = Exceeded \<and>
   (1150 / 1000 * 100 :: rat) \<ge> 115 \<and>
   check_limits (default_settings\<lparr>hard_limit_threshold := 115\<rparr>)
     (Some example_license) [example_usage ''api_calls'' 1150] 0 ''api_calls'' = Warning"
  by (simp add: check_limits_def get_resource_limit_def get_current_usage_def date_of_def
        SimbotixCoreSettings_validate_def default_settings_def example_license_def
        example_usage_def percentage_100_of_1000 percentage_1150_of_1000)

text \<open>
  C10. Without a licence (\<open>get_license\<close> returns \<open>None\<close>), or when the licence's limit
  mapping has no entry for the resource, \<open>get_resource_limit\<close> is 0, the unlimited sentinel
  of \<open>check_limits\<close>: the limit check is \<open>Ok\<close> whatever the usage.
\<close>

theorem no_license_fails_open:
  "get_license None None = None \<and>
   get_resource_limit None r = 0 \<and>
   check_limits st (get_license None None) recs ms r = Ok \<and>
   (map_of (resource_limits l) r = None \<longrightarrow>
      get_resource_limit (Some l) r = 0 \<and> check_limits st (Some l) recs ms r = Ok)"
  by (simp add: get_license_def get_resource_limit_def check_limits_def)

theorem no_license_fails_open_witness:
  "map_of (resource_limits example_license) ''emails'' = None \<and>
   get_resource_limit (Some example_license) ''emails'' = 0 \<and>
   check_limits default_settings (Some example_license)
     [example_usage ''emails'' 999999] 0 ''emails'' = Ok \<and>
   check_limits default_settings (get_license None None)
     [example_usage ''emails'' 999999] 0 ''emails'' = Ok"
  using no_license_fails_open [of "''emails''" default_settings
      "[example_usage ''emails'' 999999]" 0 example_license]
  by (simp add: example_license_def get_license_def)

section \<open>Overage\<close>

text \<open>
  C2, as the code has it. \<open>calculate_overage\<close>, for every resource: with a limit of 0, or a
  usage that does not exceed the limit, \<open>exceeded_by\<close> and the cost are 0; otherwise
  \<open>exceeded_by\<close> is the float \<open>current - limit\<close> when that is positive, and the cost is the
  plain-division amount \<open>(exceeded_by / N) * R\<close> for a per-N rate, \<open>exceeded_by * R\<close> for a
  per-unit rate, computed in floats and in both cases rounded to two decimals by
  \<open>round(_, 2)\<close>; at a zero rate the cost is 0.
\<close>

theorem calculate_overage_rounded:
  "(get_resource_limit lic r = 0 \<or> get_current_usage recs ms r \<le> get_resource_limit lic r
      \<longrightarrow> exceeded_by (calculate_overage lic recs ms r) = 0 \<and>
          overage_cost (calculate_overage lic recs ms r) = 0) \<and>
   (get_resource_limit lic r \<noteq> 0 \<longrightarrow>
      exceeded_by (calculate_overage lic recs ms r)
        = max 0 (float_sub (get_current_usage recs ms r) (get_resource_limit lic r))) \<and>
   (get_resource_limit lic r \<noteq> 0 \<and>
    float_sub (get_current_usage recs ms r) (get_resource_limit lic r) > 0 \<longrightarrow>
      (\<forall>i N. map_of OVERAGE_RATES r = Some i \<and> info_per i = Some N \<and> N > 1 \<longrightarrow>
         overage_cost (calculate_overage lic recs ms r)
           = py_round2 (float_mul
               (float_div (exceeded_by (calculate_overage lic recs ms r)) N) (info_rate i))) \<and>
      (\<forall>i. map_of OVERAGE_RATES r = Some i \<and> info_per i = None \<longrightarrow>
         overage_cost (calculate_overage lic recs ms r)
           = py_round2 (float_mul (exceeded_by (calculate_overage lic recs ms r)) (info_rate i)))) \<and>
   (rate_of r = 0 \<longrightarrow> overage_cost (calculate_overage lic recs ms r) = 0)"
proof -
  have zero: "py_round2 (py_float 0) = 0"
    by (simp add: py_round2_def py_float_def round_half_even_def)
  have under: "max 0 (float_sub (get_current_usage recs ms r) (get_resource_limit lic r)) = 0"
    if "get_current_usage recs ms r \<le> get_resource_limit lic r"
    using py_float_nonpos [of "get_current_usage recs ms r - get_resource_limit lic r"] that
    by (simp add: float_sub_def max_def)
  show ?thesis
    using under
    by (auto simp: calculate_overage_def Let_def rate_of_def per_of_def float_mul_def zero
          max_def)
qed

theorem calculate_overage_rounded_witness:
  "calculate_overage (Some example_license) [example_usage ''api_calls'' 15000] 0 ''api_calls''
     = \<lparr>exceeded_by = 14000, overage_cost = py_float (7/10), rate = 1/2\<rparr> \<and>
   calculate_overage (Some example_license) [example_usage ''storage_gb'' 15] 0 ''storage_gb''
     = \<lparr>exceeded_by = 5, overage_cost = 15/2, rate = 3/2\<rparr> \<and>
   calculate_overage (Some (example_license\<lparr>resource_limits := [(''ai_queries'', 100)]\<rparr>))
       [example_usage ''ai_queries'' 101] 0 ''ai_queries''
     = \<lparr>exceeded_by = 1, overage_cost = py_float (1/100), rate = py_float (15/1000)\<rparr> \<and>
   overage_cost (calculate_overage (Some example_license)
     [example_usage ''api_calls'' 500] 0 ''api_calls'') = 0"
  using
    calculate_overage_rounded [of "Some example_license" "''api_calls''"
      "[example_usage ''api_calls'' 15000]" 0]
    calculate_overage_rounded [of "Some example_license" "''storage_gb''"
      "[example_usage ''storage_gb'' 15]" 0]
    calculate_overage_rounded
      [of "Some (example_license\<lparr>resource_limits := [(''ai_queries'', 100)]\<rparr>)"
          "''ai_queries''" "[example_usage ''ai_queries'' 101]" 0]
    calculate_overage_rounded [of "Some example_license" "''api_calls''"
      "[example_usage ''api_calls'' 500]" 0]
  by (simp add: calculate_overage_def Let_def rate_of_def per_of_def
        OVERAGE_RATES_def get_resource_limit_def get_current_usage_def date_of_def
        example_license_def example_usage_def
        excess_15000_over_1000 excess_15_over_10 excess_101_over_100 excess_500_over_1000
        cost_14000_api_calls cost_5_storage_gb cost_1_ai_query double_7_10 double_1_100)

text \<open>
  The cost is not the unrounded \<open>(exceeded_by / N) * R\<close>: one API call over the limit costs
  \<open>(1 / 10000) * 0.50 = 0.00005\<close> by plain division, and \<open>calculate_overage\<close> returns 0.
\<close>

theorem calculate_overage_unrounded_counterexample:
  "exceeded_by (calculate_overage (Some example_license)
      [example_usage ''api_calls'' 1001] 0 ''api_calls'') = 1 \<and>
   map_of OVERAGE_RATES ''api_calls''
     = Some \<lparr>info_rate = 1/2, info_per = Some 10000, info_unit = ''10K calls''\<rparr> \<and>
   overage_cost (calculate_overage (Some example_license)
      [example_usage ''api_calls'' 1001] 0 ''api_calls'') = 0 \<and>
   overage_cost (calculate_overage (Some example_license)
      [example_usage ''api_calls'' 1001] 0 ''api_calls'') \<noteq> (1 / 10000) * (1/2)"
  by (simp add: calculate_overage_def Let_def rate_of_def per_of_def
        OVERAGE_RATES_def get_resource_limit_def get_current_usage_def date_of_def
        example_license_def example_usage_def excess_1001_over_1000 cost_1_api_call)

section \<open>Settings validation\<close>

text \<open>
  C9, as the code has it. Saving the Settings record raises a validation error, and leaves
  the stored settings as they were, exactly when both thresholds are set (non-zero) and the
  warning threshold is not strictly less than the hard-limit threshold, or the sync interval
  is set and outside [1, 24], or the cache TTL is set and below 60. A field that is 0 (unset)
  passes its check.
\<close>

theorem validate_rejects_set_fields:
  "((\<exists>e. SimbotixCoreSettings_validate doc = Inl e) \<longleftrightarrow>
      (warning_threshold doc \<noteq> 0 \<and> hard_limit_threshold doc \<noteq> 0 \<and>
       \<not> warning_threshold doc < hard_limit_threshold doc) \<or>
      (sync_interval_hours doc \<noteq> 0 \<and> (sync_interval_hours doc < 1 \<or> sync_interval_hours doc > 24)) \<or>
      (cache_ttl_seconds doc \<noteq> 0 \<and> cache_ttl_seconds doc < 60)) \<and>
   (SimbotixCoreSettings_validate doc = Inl e' \<longrightarrow> save_settings doc stored = (Inl e', stored)) \<and>
   (SimbotixCoreSettings_validate doc = Inr () \<longrightarrow> save_settings doc stored = (Inr (), Some doc))"
  by (auto simp: SimbotixCoreSettings_validate_def save_settings_def)

theorem validate_rejects_set_fields_witness:
  "save_settings (default_settings\<lparr>warning_threshold := 100, hard_limit_threshold := 80\<rparr>) None
     = (Inl (ValidationError ''Warning threshold must be less than hard limit threshold''), None) \<and>
   save_settings (default_settings\<lparr>sync_interval_hours := 25\<rparr>) (Some default_settings)
     = (Inl (ValidationError ''Sync interval must be between 1 and 24 hours''),
        Some default_settings) \<and>
   save_settings (default_settings\<lparr>cache_ttl_seconds := 59\<rparr>) (Some default_settings)
     = (Inl (ValidationError ''Cache TTL must be at least 60 seconds''), Some default_settings) \<and>
   save_settings default_settings None = (Inr (), Some default_settings)"
  using
    validate_rejects_set_fields
      [of "default_settings\<lparr>warning_threshold := 100, hard_limit_threshold := 80\<rparr>"
          "ValidationError ''Warning threshold must be less than hard limit threshold''" None]
    validate_rejects_set_fields
      [of "default_settings\<lparr>sync_interval_hours := 25\<rparr>"
          "ValidationError ''Sync interval must be between 1 and 24 hours''"
          "Some default_settings"]
    validate_rejects_set_fields
      [of "default_settings\<lparr>cache_ttl_seconds := 59\<rparr>"
          "ValidationError ''Cache TTL must be at least 60 seconds''" "Some default_settings"]
    validate_rejects_set_fields [of default_settings undefined None]
  by (simp add: SimbotixCoreSettings_validate_def default_settings_def)

text \<open>
  A warning threshold of 50 with a hard-limit threshold of 0 is not strictly less, a sync
  interval of 0 is outside [1, 24] and a cache TTL of 0 is below 60: \<open>validate\<close> passes each
  of them and the record is persisted.
\<close>

theorem validate_unset_fields_counterexample:
  "\<not> warning_threshold (default_settings\<lparr>warning_threshold := 50, hard_limit_threshold := 0\<rparr>)
       < hard_limit_threshold (default_settings\<lparr>warning_threshold := 50, hard_limit_threshold := 0\<rparr>) \<and>
   save_settings (default_settings\<lparr>warning_threshold := 50, hard_limit_threshold := 0\<rparr>) None
     = (Inr (), Some (default_settings\<lparr>warning_threshold := 50, hard_limit_threshold := 0\<rparr>)) \<and>
   sync_interval_hours (default_settings\<lparr>sync_interval_hours := 0\<rparr>) < 1 \<and>
   save_settings (default_settings\<lparr>sync_interval_hours := 0\<rparr>) None
     = (Inr (), Some (default_settings\<lparr>sync_interval_hours := 0\<rparr>)) \<and>
   cache_ttl_seconds (default_settings\<lparr>cache_ttl_seconds := 0\<rparr>) < 60 \<and>
   save_settings (default_settings\<lparr>cache_ttl_seconds := 0\<rparr>) None
     = (Inr (), Some (default_settings\<lparr>cache_ttl_seconds := 0\<rparr>))"
  by (simp add: save_settings_def SimbotixCoreSettings_validate_def default_settings_def)

section \<open>Retention\<close>

text \<open>
  C8. \<open>cleanup_old_records\<close> deletes a usage record if and only if it is synced and its
  creation time is before the cutoff, midnight of the day 30 days before today: every
  unsynced record, whatever its age, and every synced record created from the cutoff on is
  still in the table, as it was, and nothing else is.
\<close>

theorem cleanup_deletes_only_old_synced:
  "cutoff_date today = (today - 30) * 86400 \<and>
   (\<forall>r \<in> set db. r \<notin> set (cleanup_old_records today db) \<longleftrightarrow>
      synced r \<and> creation r < cutoff_date today) \<and>
   (\<forall>r \<in> set db. \<not> synced r \<longrightarrow> r \<in> set (cleanup_old_records today db)) \<and>
   (\<forall>r \<in> set db. synced r \<and> cutoff_date today \<le> creation r
      \<longrightarrow> r \<in> set (cleanup_old_records today db)) \<and>
   set (cleanup_old_records today db) \<subseteq> set db \<and>
   cleanup_old_records today db
     = filter (\<lambda>r. r \<in> set (cleanup_old_records today db)) db"
proof -
  have "filter (\<lambda>r. \<not> (synced r \<and> creation r < cutoff_date today)) db
        = filter (\<lambda>r. r \<in> set (filter (\<lambda>r. \<not> (synced r \<and> creation r < cutoff_date today)) db)) db"
    by (rule filter_cong) auto
  then show ?thesis
    by (auto simp: cleanup_old_records_def cutoff_date_def)
qed

theorem cleanup_deletes_only_old_synced_witness:
  "cleanup_old_records 100
     [(example_usage ''api_calls'' 1)\<lparr>name := ''UR-1'', creation := 69 * 86400 + 86399, synced := True\<rparr>,
      (example_usage ''api_calls'' 2)\<lparr>name := ''UR-2'', creation := 0\<rparr>,
      (example_usage ''api_calls'' 3)\<lparr>name := ''UR-3'', creation := 70 * 86400, synced := True\<rparr>]
   = [(example_usage ''api_calls'' 2)\<lparr>name := ''UR-2'', creation := 0\<rparr>,
      (example_usage ''api_calls'' 3)\<lparr>name := ''UR-3'', creation := 70 * 86400, synced := True\<rparr>]"
  using cleanup_deletes_only_old_synced [of 100
     "[(example_usage ''api_calls'' 1)\<lparr>name := ''UR-1'', creation := 69 * 86400 + 86399, synced := True\<rparr>,
      (example_usage ''api_calls'' 2)\<lparr>name := ''UR-2'', creation := 0\<rparr>,
      (example_usage ''api_calls'' 3)\<lparr>name := ''UR-3'', creation := 70 * 86400, synced := True\<rparr>]"]
  by (simp add: cleanup_old_records_def cutoff_date_def example_usage_def)

section \<open>Usage sync\<close>











end
